theory Spec2Isabelle
  imports Complex_Main "HOL-Library.Sublist" "HOL-Library.Stream" "HOL-Library.AList"
    "HOL-Library.Word"
begin

section \<open>JavaScript values\<close>

text \<open>
  A JavaScript number is a double. The finite ones are modelled by the real number they
  denote, so that arithmetic is exact: rounding, overflow of a finite result and the sign
  of zero are outside the model. The two infinities and NaN are values of their own, since
  the calculator tests for NaN and JSON input such as \<^verbatim>\<open>1e999\<close> parses to Infinity.
\<close>

datatype jsnum = Fin real | PInf | NInf | NaN

text \<open>
  A JavaScript string is the list of its UTF-16 code units; a surrogate may stand alone
  in it. The literals of the source are ASCII, and \<open>js\<close> gives the string of one.
\<close>

type_synonym code_unit = "16 word"

type_synonym jsstring = "code_unit list"

definition js :: "string \<Rightarrow> jsstring" where
  "js s = map of_char s"

text \<open>
  The arguments of a tool call arrive as untyped JSON. An object is an association list
  in which the first binding of a key is the property's value; the keys are written as
  the source writes the property names it reads.
\<close>

datatype jsval =
    JUndefined
  | JNull
  | JBool bool
  | JNum jsnum
  | JStr jsstring
  | JArr "jsval list"
  | JObj "(string \<times> jsval) list"

text \<open>What a \<^verbatim>\<open>throw\<close> can carry in this program.\<close>

datatype ErrorCode = MethodNotFound | InvalidParams | InternalError

datatype errno = ENOENT | ENOTDIR | EISDIR | EEXIST | ENAMETOOLONG

datatype exn =
    Error jsstring
  | TypeError jsstring
  | ErrnoException errno jsstring
  | McpError ErrorCode jsstring

fun error_message :: "exn \<Rightarrow> jsstring" where
  "error_message (Error m) = m"
| "error_message (TypeError m) = m"
| "error_message (ErrnoException c m) = m"
| "error_message (McpError c m) = m"

fun instanceof_McpError :: "exn \<Rightarrow> bool" where
  "instanceof_McpError (McpError c m) = True"
| "instanceof_McpError (Error m) = False"
| "instanceof_McpError (TypeError m) = False"
| "instanceof_McpError (ErrnoException c m) = False"

text \<open>\<^verbatim>\<open>!v\<close> is \<open>\<not> truthy v\<close>: undefined, null, false, 0, NaN and the empty string are falsy.\<close>

fun truthy :: "jsval \<Rightarrow> bool" where
  "truthy JUndefined = False"
| "truthy JNull = False"
| "truthy (JBool b) = b"
| "truthy (JNum (Fin x)) = (x \<noteq> 0)"
| "truthy (JNum NaN) = False"
| "truthy (JNum PInf) = True"
| "truthy (JNum NInf) = True"
| "truthy (JStr s) = (s \<noteq> [])"
| "truthy (JArr xs) = True"
| "truthy (JObj kvs) = True"

fun typeof :: "jsval \<Rightarrow> string" where
  "typeof JUndefined = ''undefined''"
| "typeof JNull = ''object''"
| "typeof (JBool b) = ''boolean''"
| "typeof (JNum n) = ''number''"
| "typeof (JStr s) = ''string''"
| "typeof (JArr xs) = ''object''"
| "typeof (JObj kvs) = ''object''"

text \<open>\<^verbatim>\<open>isNaN(v)\<close>, used by the source on values already known to be numbers.\<close>

fun isNaN :: "jsval \<Rightarrow> bool" where
  "isNaN (JNum NaN) = True"
| "isNaN v = False"

text \<open>
  Reading a property: \<^verbatim>\<open>input.k\<close>. On undefined and null the read throws a TypeError
  (\<open>nullish\<close>, with V8's message); on an object it is the bound value or undefined; the
  primitives and arrays have none of the property names this program reads.
\<close>

fun nullish :: "jsval \<Rightarrow> bool" where
  "nullish JUndefined = True"
| "nullish JNull = True"
| "nullish v = False"

fun get_prop :: "jsval \<Rightarrow> string \<Rightarrow> jsval" where
  "get_prop (JObj kvs) k = (case map_of kvs k of None \<Rightarrow> JUndefined | Some v \<Rightarrow> v)"
| "get_prop v k = JUndefined"

fun cannot_read :: "jsval \<Rightarrow> string \<Rightarrow> exn" where
  "cannot_read JNull k =
     TypeError
       (js (''Cannot read properties of null (reading '' @ [CHR 0x27] @ k @ [CHR 0x27] @ '')''))"
| "cannot_read v k =
     TypeError
       (js (''Cannot read properties of undefined (reading '' @ [CHR 0x27] @ k @ [CHR 0x27] @
            '')''))"

text \<open>
  \<^verbatim>\<open>list.includes(v)\<close> for a list of literals: strict equality with one of them.
\<close>

fun js_includes :: "string list \<Rightarrow> jsval \<Rightarrow> bool" where
  "js_includes xs (JStr s) = (s \<in> set (map js xs))"
| "js_includes xs v = False"

text \<open>\<^verbatim>\<open>list.join(', ')\<close>.\<close>

fun join :: "'a list \<Rightarrow> 'a list list \<Rightarrow> 'a list" where
  "join sep [] = []"
| "join sep [x] = x"
| "join sep (x # y # ys) = x @ sep @ join sep (y # ys)"

text \<open>Interpolating a value into a template string, for the values that reach one.\<close>

fun to_string :: "jsval \<Rightarrow> jsstring" where
  "to_string (JStr s) = s"
| "to_string JUndefined = js ''undefined''"
| "to_string JNull = js ''null''"
| "to_string (JBool b) = (if b then js ''true'' else js ''false'')"
| "to_string v = js ''[object]''"

subsection \<open>Arithmetic on numbers\<close>

fun js_neg :: "jsnum \<Rightarrow> jsnum" where
  "js_neg (Fin x) = Fin (- x)"
| "js_neg PInf = NInf"
| "js_neg NInf = PInf"
| "js_neg NaN = NaN"

fun js_add :: "jsnum \<Rightarrow> jsnum \<Rightarrow> jsnum" where
  "js_add (Fin x) (Fin y) = Fin (x + y)"
| "js_add NaN y = NaN"
| "js_add x NaN = NaN"
| "js_add PInf NInf = NaN"
| "js_add NInf PInf = NaN"
| "js_add PInf y = PInf"
| "js_add NInf y = NInf"
| "js_add (Fin x) y = y"

definition js_sub :: "jsnum \<Rightarrow> jsnum \<Rightarrow> jsnum" where
  "js_sub x y = js_add x (js_neg y)"

text \<open>The sign of a number that is not NaN: \<open>-1\<close>, \<open>0\<close> or \<open>1\<close>.\<close>

fun js_sign :: "jsnum \<Rightarrow> int" where
  "js_sign (Fin x) = (if x < 0 then -1 else if x = 0 then 0 else 1)"
| "js_sign PInf = 1"
| "js_sign NInf = -1"
| "js_sign NaN = 0"

definition signed_inf :: "int \<Rightarrow> jsnum" where
  "signed_inf s = (if s = 0 then NaN else if 0 < s then PInf else NInf)"

fun js_mul :: "jsnum \<Rightarrow> jsnum \<Rightarrow> jsnum" where
  "js_mul (Fin x) (Fin y) = Fin (x * y)"
| "js_mul NaN y = NaN"
| "js_mul x NaN = NaN"
| "js_mul x y = signed_inf (js_sign x * js_sign y)"

fun js_div :: "jsnum \<Rightarrow> jsnum \<Rightarrow> jsnum" where
  "js_div (Fin x) (Fin y) = (if y = 0 then signed_inf (js_sign (Fin x)) else Fin (x / y))"
| "js_div NaN y = NaN"
| "js_div x NaN = NaN"
| "js_div (Fin x) y = Fin 0"
| "js_div x (Fin y) = signed_inf (js_sign x * (if y < 0 then -1 else 1))"
| "js_div x y = NaN"

fun js_sqrt :: "jsnum \<Rightarrow> jsnum" where
  "js_sqrt (Fin x) = (if x < 0 then NaN else Fin (sqrt x))"
| "js_sqrt PInf = PInf"
| "js_sqrt NInf = NaN"
| "js_sqrt NaN = NaN"

definition is_integer :: "real \<Rightarrow> bool" where
  "is_integer y = (of_int \<lfloor>y\<rfloor> = y)"

definition is_odd_integer :: "real \<Rightarrow> bool" where
  "is_odd_integer y = (is_integer y \<and> odd \<lfloor>y\<rfloor>)"

text \<open>\<^verbatim>\<open>Math.pow\<close>, by the cases of the language standard.\<close>

fun js_pow :: "jsnum \<Rightarrow> jsnum \<Rightarrow> jsnum" where
  "js_pow x NaN = NaN"
| "js_pow x (Fin y) =
     (if y = 0 then Fin 1
      else case x of
        NaN \<Rightarrow> NaN
      | PInf \<Rightarrow> (if 0 < y then PInf else Fin 0)
      | NInf \<Rightarrow> (if 0 < y then (if is_odd_integer y then NInf else PInf) else Fin 0)
      | Fin b \<Rightarrow>
          (if b = 0 then (if 0 < y then Fin 0 else PInf)
           else if 0 < b then Fin (b powr y)
           else if is_integer y then Fin (b powi \<lfloor>y\<rfloor>)
           else NaN))"
| "js_pow x PInf =
     (case x of
        NaN \<Rightarrow> NaN
      | PInf \<Rightarrow> PInf
      | NInf \<Rightarrow> PInf
      | Fin b \<Rightarrow> (if 1 < \<bar>b\<bar> then PInf else if \<bar>b\<bar> = 1 then NaN else Fin 0))"
| "js_pow x NInf =
     (case x of
        NaN \<Rightarrow> NaN
      | PInf \<Rightarrow> Fin 0
      | NInf \<Rightarrow> Fin 0
      | Fin b \<Rightarrow> (if 1 < \<bar>b\<bar> then Fin 0 else if \<bar>b\<bar> = 1 then NaN else PInf))"

text \<open>
  The operands of the calculator's arithmetic and comparisons are numbers by the time
  they are used: \<open>validateInput\<close> has thrown otherwise. \<open>the_number\<close> reads the
  number; on any other value it is NaN, a case the calculator never reaches.
\<close>

fun the_number :: "jsval \<Rightarrow> jsnum" where
  "the_number (JNum n) = n"
| "the_number v = NaN"

text \<open>\<^verbatim>\<open>x === 0\<close> and \<^verbatim>\<open>x < 0\<close>.\<close>

fun strict_eq_zero :: "jsval \<Rightarrow> bool" where
  "strict_eq_zero (JNum (Fin x)) = (x = 0)"
| "strict_eq_zero v = False"

fun less_zero :: "jsnum \<Rightarrow> bool" where
  "less_zero (Fin x) = (x < 0)"
| "less_zero NInf = True"
| "less_zero PInf = False"
| "less_zero NaN = False"

section \<open>The calculator tool\<close>

record CalculatorOutput =
  result :: jsnum
  calc_operation :: jsstring
  inputs_a :: jsnum
  inputs_b :: "jsval option"

definition calculator_validOperations :: "string list" where
  "calculator_validOperations =
     [''add'', ''subtract'', ''multiply'', ''divide'', ''power'', ''sqrt'']"

definition CalculatorTool_validateInput :: "jsval \<Rightarrow> exn + unit" where
  "CalculatorTool_validateInput input =
     (if nullish input then Inl (cannot_read input ''operation'')
      else if \<not> truthy (get_prop input ''operation'') then
        Inl (Error (js ''Operation is required''))
      else if \<not> js_includes calculator_validOperations (get_prop input ''operation'') then
        Inl (Error (js (''Invalid operation. Must be one of: '' @
                        join '', '' calculator_validOperations)))
      else if typeof (get_prop input ''a'') \<noteq> ''number'' \<or> isNaN (get_prop input ''a'') then
        Inl (Error (js (''Parameter '' @ [CHR 0x22] @ ''a'' @ [CHR 0x22] @
                        '' must be a valid number'')))
      else if get_prop input ''operation'' \<noteq> JStr (js ''sqrt'') \<and>
              (get_prop input ''b'' = JUndefined \<or> typeof (get_prop input ''b'') \<noteq> ''number'' \<or>
               isNaN (get_prop input ''b'')) then
        Inl (Error (js (''Parameter '' @ [CHR 0x22] @ ''b'' @ [CHR 0x22] @ '' is required for '') @
                    to_string (get_prop input ''operation'') @ js '' operation''))
      else if get_prop input ''operation'' = JStr (js ''divide'') \<and>
              strict_eq_zero (get_prop input ''b'') then
        Inl (Error (js ''Division by zero is not allowed''))
      else if get_prop input ''operation'' = JStr (js ''sqrt'') \<and>
              less_zero (the_number (get_prop input ''a'')) then
        Inl (Error (js ''Cannot calculate square root of negative number''))
      else Inr ())"

definition calculate_result :: "jsstring \<Rightarrow> jsnum \<Rightarrow> jsnum \<Rightarrow> exn + jsnum" where
  "calculate_result op a b =
     (if op = js ''add'' then Inr (js_add a b)
      else if op = js ''subtract'' then Inr (js_sub a b)
      else if op = js ''multiply'' then Inr (js_mul a b)
      else if op = js ''divide'' then Inr (js_div a b)
      else if op = js ''power'' then Inr (js_pow a b)
      else if op = js ''sqrt'' then Inr (js_sqrt a)
      else Inl (Error (js ''Invalid operation'')))"

definition CalculatorTool_calculate :: "jsval \<Rightarrow> exn + CalculatorOutput" where
  "CalculatorTool_calculate input =
     (case CalculatorTool_validateInput input of
        Inl e \<Rightarrow> Inl e
      | Inr u \<Rightarrow>
          (case calculate_result (to_string (get_prop input ''operation''))
                  (the_number (get_prop input ''a'')) (the_number (get_prop input ''b'')) of
             Inl e \<Rightarrow> Inl e
           | Inr r \<Rightarrow>
               Inr \<lparr> result = r,
                     calc_operation = to_string (get_prop input ''operation''),
                     inputs_a = the_number (get_prop input ''a''),
                     inputs_b = (if get_prop input ''b'' \<noteq> JUndefined then Some (get_prop input ''b'')
                                 else None) \<rparr>))"

section \<open>The weather tool\<close>

text \<open>
  The tool draws from \<^verbatim>\<open>Math.random()\<close> and reads the clock. Both are
  inputs of the model: the stream of numbers the successive calls return (each in
  \<open>[0, 1)\<close>), and the text \<^verbatim>\<open>new Date().toISOString()\<close> gives.
\<close>

record ForecastEntry =
  day :: jsstring
  high :: int
  low :: int
  day_condition :: "jsstring option"

record WeatherOutput =
  location :: jsstring
  temperature :: int
  units :: jsstring
  condition :: "jsstring option"
  humidity :: int
  windSpeed :: int
  forecast :: "ForecastEntry list"
  timestamp :: jsstring

definition conditions :: "jsstring list" where
  "conditions =
     map js [''Sunny'', ''Partly Cloudy'', ''Cloudy'', ''Rainy'', ''Stormy'', ''Snowy'', ''Foggy'',
             ''Windy'']"

definition days :: "jsstring list" where
  "days =
     map js [''Monday'', ''Tuesday'', ''Wednesday'', ''Thursday'', ''Friday'', ''Saturday'',
             ''Sunday'']"

text \<open>\<^verbatim>\<open>Math.round\<close> rounds half up; \<^verbatim>\<open>Math.floor\<close> is \<open>\<lfloor>_\<rfloor>\<close>.\<close>

definition Math_round :: "real \<Rightarrow> int" where
  "Math_round x = \<lfloor>x + 1 / 2\<rfloor>"

text \<open>\<^verbatim>\<open>xs[i]\<close>: undefined (\<open>None\<close>) out of range.\<close>

definition at_index :: "'a list \<Rightarrow> int \<Rightarrow> 'a option" where
  "at_index xs i = (if 0 \<le> i \<and> i < int (length xs) then Some (xs ! nat i) else None)"

text \<open>
  \<^verbatim>\<open>s.trim()\<close> removes the white space and the line terminators of the language from
  both ends.
\<close>

definition is_space :: "code_unit \<Rightarrow> bool" where
  "is_space c =
     (c \<in> {0x09, 0x0A, 0x0B, 0x0C, 0x0D, 0x20, 0xA0, 0x1680, 0x2028, 0x2029, 0x202F, 0x205F,
            0x3000, 0xFEFF} \<or>
      (0x2000 \<le> c \<and> c \<le> 0x200A))"

definition trim :: "jsstring \<Rightarrow> jsstring" where
  "trim s = rev (dropWhile is_space (rev (dropWhile is_space s)))"

text \<open>The string of a value that \<open>typeof\<close> has shown to be one.\<close>

fun the_string :: "jsval \<Rightarrow> jsstring" where
  "the_string (JStr s) = s"
| "the_string v = []"

definition WeatherTool_validateInput :: "jsval \<Rightarrow> exn + unit" where
  "WeatherTool_validateInput input =
     (if nullish input then Inl (cannot_read input ''location'')
      else if \<not> truthy (get_prop input ''location'') \<or>
              typeof (get_prop input ''location'') \<noteq> ''string'' then
        Inl (Error (js ''Location is required and must be a string''))
      else if length (trim (the_string (get_prop input ''location''))) = 0 then
        Inl (Error (js ''Location cannot be empty''))
      else if truthy (get_prop input ''units'') \<and>
              \<not> js_includes [''celsius'', ''fahrenheit''] (get_prop input ''units'') then
        Inl (Error (js (''Units must be either '' @ [CHR 0x22] @ ''celsius'' @ [CHR 0x22] @
                        '' or '' @ [CHR 0x22] @ ''fahrenheit'' @ [CHR 0x22])))
      else Inr ())"

text \<open>
  The forecast: \<^verbatim>\<open>this.days.map(day => ...)\<close>, each entry drawing three numbers, for
  high, low and condition in that order.
\<close>

fun forecast_entries ::
  "jsstring list \<Rightarrow> int \<Rightarrow> real stream \<Rightarrow> ForecastEntry list \<times> real stream" where
  "forecast_entries [] t r = ([], r)"
| "forecast_entries (d # ds) t r =
     (let e = \<lparr> day = d,
                 high = Math_round (real_of_int t + shd r * 5),
                 low = Math_round (real_of_int t - shd (stl r) * 5),
                 day_condition =
                   at_index conditions \<lfloor>shd (stl (stl r)) * real (length conditions)\<rfloor> \<rparr>;
          (es, r') = forecast_entries ds t (stl (stl (stl r)))
      in (e # es, r'))"

definition generateWeatherData ::
  "real stream \<Rightarrow> jsstring \<Rightarrow> jsstring \<Rightarrow> jsval \<Rightarrow> WeatherOutput \<times> real stream" where
  "generateWeatherData r now loc u =
     (let isCelsius = (u = JStr (js ''celsius''));
          baseTemp = (if isCelsius then 20 else 68 :: real);
          tempVariation = (if isCelsius then 10 else 18 :: real);
          temp = Math_round (baseTemp + (shd r * tempVariation - tempVariation / 2));
          r1 = stl r;
          cond = at_index conditions \<lfloor>shd r1 * real (length conditions)\<rfloor>;
          r2 = stl r1;
          hum = Math_round (30 + shd r2 * 50);
          r3 = stl r2;
          wind = Math_round (5 + shd r3 * 20);
          r4 = stl r3;
          (fc, r5) = forecast_entries days temp r4
      in (\<lparr> location = loc,
             temperature = temp,
             units = (if isCelsius then js ''Celsius'' else js ''Fahrenheit''),
             condition = cond,
             humidity = hum,
             windSpeed = wind,
             forecast = fc,
             timestamp = now \<rparr>, r5))"

definition WeatherTool_getWeather ::
  "real stream \<Rightarrow> jsstring \<Rightarrow> jsval \<Rightarrow> (exn + WeatherOutput) \<times> real stream" where
  "WeatherTool_getWeather r now input =
     (case WeatherTool_validateInput input of
        Inl e \<Rightarrow> (Inl e, r)
      | Inr u \<Rightarrow>
          (let units = (if truthy (get_prop input ''units'') then get_prop input ''units''
                        else JStr (js ''celsius''));
               (out, r') = generateWeatherData r now (the_string (get_prop input ''location'')) units
           in (Inr out, r')))"

section \<open>Paths\<close>

text \<open>\<^verbatim>\<open>p.split('/')\<close>.\<close>

fun split_path :: "jsstring \<Rightarrow> jsstring list" where
  "split_path [] = [[]]"
| "split_path (c # cs) =
     (if c = of_char CHR ''/'' then [] # split_path cs
      else (case split_path cs of [] \<Rightarrow> [[c]] | s # ss \<Rightarrow> (c # s) # ss))"

text \<open>
  The normalisation inside \<^verbatim>\<open>path.resolve\<close> (POSIX): empty segments and \<^verbatim>\<open>.\<close>
  are dropped, \<^verbatim>\<open>..\<close> removes the segment before it and stays at the root.
\<close>

definition normalize_step :: "jsstring list \<Rightarrow> jsstring \<Rightarrow> jsstring list" where
  "normalize_step acc s =
     (if s = [] \<or> s = js ''.'' then acc else if s = js ''..'' then butlast acc else acc @ [s])"

definition normalize_segments :: "jsstring list \<Rightarrow> jsstring list" where
  "normalize_segments segs = foldl normalize_step [] segs"

definition segments :: "jsstring \<Rightarrow> jsstring list" where
  "segments p = normalize_segments (split_path p)"

definition absolute_of :: "jsstring list \<Rightarrow> jsstring" where
  "absolute_of segs = js ''/'' @ join (js ''/'') segs"

text \<open>
  \<^verbatim>\<open>path.resolve(p)\<close> with the working directory \<open>cwd\<close> (an absolute path): a
  relative path is taken from \<open>cwd\<close>, the empty path is \<open>cwd\<close> itself.
\<close>

definition resolve :: "jsstring \<Rightarrow> jsstring \<Rightarrow> jsstring" where
  "resolve cwd p =
     absolute_of
       (segments (if p \<noteq> [] \<and> hd p = of_char CHR ''/'' then p else cwd @ js ''/'' @ p))"

text \<open>\<^verbatim>\<open>path.dirname\<close> of a resolved path.\<close>

definition dirname :: "jsstring \<Rightarrow> jsstring" where
  "dirname p = absolute_of (butlast (segments p))"


section \<open>The file system\<close>

text \<open>
  The platform encodes a path, and the string of a write, as UTF-8, and decodes what it
  reads. UTF-8 has no code for a surrogate that stands alone: the encoder writes U+FFFD in
  its place, which is what \<^verbatim>\<open>toWellFormed\<close> does to a string. The model keeps, for
  a name and for the content of a file, the string the bytes decode to; so a write of
  \<open>s\<close> stores \<open>toWellFormed s\<close>, reading returns what is stored, and a path leads to the
  names \<open>toWellFormed\<close> of its segments.
\<close>

definition is_high_surrogate :: "code_unit \<Rightarrow> bool" where
  "is_high_surrogate c = (0xD800 \<le> c \<and> c \<le> 0xDBFF)"

definition is_low_surrogate :: "code_unit \<Rightarrow> bool" where
  "is_low_surrogate c = (0xDC00 \<le> c \<and> c \<le> 0xDFFF)"


fun toWellFormed :: "jsstring \<Rightarrow> jsstring" where
  "toWellFormed [] = []"
| "toWellFormed [c] = (if is_high_surrogate c \<or> is_low_surrogate c then [0xFFFD] else [c])"
| "toWellFormed (c # d # cs) =
     (if is_high_surrogate c then
        (if is_low_surrogate d then c # d # toWellFormed cs else 0xFFFD # toWellFormed (d # cs))
      else if is_low_surrogate c then 0xFFFD # toWellFormed (d # cs)
      else c # toWellFormed (d # cs))"

text \<open>The number of bytes of the UTF-8 encoding: four for a surrogate pair.\<close>

definition utf8_width :: "code_unit \<Rightarrow> nat" where
  "utf8_width c = (if c < 0x80 then 1 else if c < 0x800 then 2 else 3)"

fun utf8_length :: "jsstring \<Rightarrow> nat" where
  "utf8_length [] = 0"
| "utf8_length [c] = utf8_width c"
| "utf8_length (c # d # cs) =
     (if is_high_surrogate c \<and> is_low_surrogate d then 4 + utf8_length cs
      else utf8_width c + utf8_length (d # cs))"

text \<open>
  The store behind \<^verbatim>\<open>fs/promises\<close>, on Linux: a tree of directories and regular
  files, whose root is a directory. A directory is an association list from names to nodes,
  the first binding of a name counting. Permissions, links and devices are outside the
  model. The faults the operations can meet are a path with a NUL, which the platform
  refuses before any system call, a path of 4096 bytes or more, a name of more than 255
  bytes, a missing name, a file where a directory is needed, and a directory where a file
  is needed.
\<close>

datatype node = File jsstring | Dir "(jsstring \<times> node) list"

definition name_too_long :: "jsstring \<Rightarrow> bool" where
  "name_too_long s = (255 < utf8_length s)"

fun lookup :: "node \<Rightarrow> jsstring list \<Rightarrow> errno + node" where
  "lookup n [] = Inr n"
| "lookup (File c) (s # ss) = Inl ENOTDIR"
| "lookup (Dir es) (s # ss) =
     (if name_too_long s then Inl ENAMETOOLONG
      else case map_of es s of None \<Rightarrow> Inl ENOENT | Some n \<Rightarrow> lookup n ss)"

text \<open>\<^verbatim>\<open>mkdir -p\<close>: the directories missing along the path are created.\<close>

fun mkdir_p :: "node \<Rightarrow> jsstring list \<Rightarrow> errno + node" where
  "mkdir_p (File c) [] = Inl EEXIST"
| "mkdir_p (File c) (s # ss) = Inl ENOTDIR"
| "mkdir_p (Dir es) [] = Inr (Dir es)"
| "mkdir_p (Dir es) (s # ss) =
     (if name_too_long s then Inl ENAMETOOLONG
      else case mkdir_p (case map_of es s of None \<Rightarrow> Dir [] | Some n \<Rightarrow> n) ss of
        Inl e \<Rightarrow> Inl e
      | Inr n \<Rightarrow> Inr (Dir (AList.update s n es)))"

text \<open>Creating or truncating a regular file; its directory must exist.\<close>

fun write_node :: "node \<Rightarrow> jsstring list \<Rightarrow> jsstring \<Rightarrow> errno + node" where
  "write_node (File old) [] c = Inr (File c)"
| "write_node (Dir es) [] c = Inl EISDIR"
| "write_node (File old) (s # ss) c = Inl ENOTDIR"
| "write_node (Dir es) (s # ss) c =
     (if name_too_long s then Inl ENAMETOOLONG
      else case map_of es s of
        None \<Rightarrow> (if ss = [] then Inr (Dir (AList.update s (File c) es)) else Inl ENOENT)
      | Some n \<Rightarrow>
          (case write_node n ss c of
             Inl e \<Rightarrow> Inl e
           | Inr n' \<Rightarrow> Inr (Dir (AList.update s n' es))))"

text \<open>Removing a regular file. The root and the directories are not removed.\<close>

fun unlink_node :: "node \<Rightarrow> jsstring list \<Rightarrow> errno + node" where
  "unlink_node n [] = Inl EISDIR"
| "unlink_node (File c) (s # ss) = Inl ENOTDIR"
| "unlink_node (Dir es) [s] =
     (if name_too_long s then Inl ENAMETOOLONG
      else case map_of es s of
        None \<Rightarrow> Inl ENOENT
      | Some (File c) \<Rightarrow> Inr (Dir (AList.delete s es))
      | Some (Dir ds) \<Rightarrow> Inl EISDIR)"
| "unlink_node (Dir es) (s # t # ss) =
     (if name_too_long s then Inl ENAMETOOLONG
      else case map_of es s of
        None \<Rightarrow> Inl ENOENT
      | Some n \<Rightarrow>
          (case unlink_node n (t # ss) of
             Inl e \<Rightarrow> Inl e
           | Inr n' \<Rightarrow> Inr (Dir (AList.update s n' es))))"

text \<open>The names a path leads to.\<close>

definition fs_segments :: "jsstring \<Rightarrow> jsstring list" where
  "fs_segments p = map toWellFormed (segments p)"

text \<open>The message of the exception a failed system call raises.\<close>

fun errno_text :: "errno \<Rightarrow> string" where
  "errno_text ENOENT = ''ENOENT: no such file or directory''"
| "errno_text ENOTDIR = ''ENOTDIR: not a directory''"
| "errno_text EISDIR = ''EISDIR: illegal operation on a directory''"
| "errno_text EEXIST = ''EEXIST: file already exists''"
| "errno_text ENAMETOOLONG = ''ENAMETOOLONG: name too long''"

definition errno_exception :: "errno \<Rightarrow> string \<Rightarrow> jsstring \<Rightarrow> exn" where
  "errno_exception e syscall p =
     ErrnoException e
       (js (errno_text e @ '', '' @ syscall @ '' '' @ [CHR 0x27]) @ toWellFormed p @ js [CHR 0x27])"

text \<open>
  Two things are the platform's own and are parameters of the model: what
  \<^verbatim>\<open>fs.writeFile\<close> does with data that is not a string (it refuses some and writes
  others, by its version), a function from the tree, the path and the data to the outcome;
  and the message of the TypeError by which it refuses a path with a NUL, a function of the
  path.
\<close>

type_synonym data_writer = "node \<Rightarrow> jsstring \<Rightarrow> jsval \<Rightarrow> (exn + unit) \<times> node"

record platform =
  writeFile_other :: data_writer
  null_bytes_message :: "jsstring \<Rightarrow> jsstring"

text \<open>
  What the platform refuses before it reaches the tree: a path with a NUL, by a TypeError
  whose code is \<^verbatim>\<open>ERR_INVALID_ARG_VALUE\<close>; and a path too long for a system call.
\<close>

definition path_exception :: "platform \<Rightarrow> jsstring \<Rightarrow> string \<Rightarrow> exn option" where
  "path_exception pf p syscall =
     (if 0 \<in> set p then Some (TypeError (null_bytes_message pf p))
      else if 4096 \<le> utf8_length p then Some (errno_exception ENAMETOOLONG syscall p)
      else None)"

text \<open>The node a path leads to, or the exception of the system call \<open>syscall\<close>.\<close>

definition fs_lookup :: "platform \<Rightarrow> node \<Rightarrow> jsstring \<Rightarrow> string \<Rightarrow> exn + node" where
  "fs_lookup pf tree p syscall =
     (case path_exception pf p syscall of
        Some e \<Rightarrow> Inl e
      | None \<Rightarrow>
          (case lookup tree (fs_segments p) of
             Inl e \<Rightarrow> Inl (errno_exception e syscall p)
           | Inr n \<Rightarrow> Inr n))"

definition fs_readFile :: "platform \<Rightarrow> node \<Rightarrow> jsstring \<Rightarrow> exn + jsstring" where
  "fs_readFile pf tree p =
     (case fs_lookup pf tree p ''open'' of
        Inl e \<Rightarrow> Inl e
      | Inr (File c) \<Rightarrow> Inr c
      | Inr (Dir es) \<Rightarrow> Inl (ErrnoException EISDIR (js (errno_text EISDIR @ '', read''))))"

definition fs_mkdir_recursive :: "platform \<Rightarrow> node \<Rightarrow> jsstring \<Rightarrow> exn + node" where
  "fs_mkdir_recursive pf tree p =
     (case path_exception pf p ''mkdir'' of
        Some e \<Rightarrow> Inl e
      | None \<Rightarrow>
          (case mkdir_p tree (fs_segments p) of
             Inl e \<Rightarrow> Inl (errno_exception e ''mkdir'' p)
           | Inr tree' \<Rightarrow> Inr tree'))"

text \<open>
  \<^verbatim>\<open>fs.writeFile\<close> writes a string in UTF-8; data that are not a string are the
  platform's to deal with.
\<close>

definition fs_writeFile ::
  "platform \<Rightarrow> node \<Rightarrow> jsstring \<Rightarrow> jsval \<Rightarrow> (exn + unit) \<times> node" where
  "fs_writeFile pf tree p content =
     (if typeof content \<noteq> ''string'' then writeFile_other pf tree p content
      else case path_exception pf p ''open'' of
        Some e \<Rightarrow> (Inl e, tree)
      | None \<Rightarrow>
          (case write_node tree (fs_segments p) (toWellFormed (the_string content)) of
             Inl e \<Rightarrow> (Inl (errno_exception e ''open'' p), tree)
           | Inr tree' \<Rightarrow> (Inr (), tree')))"

definition fs_unlink :: "platform \<Rightarrow> node \<Rightarrow> jsstring \<Rightarrow> exn + node" where
  "fs_unlink pf tree p =
     (case path_exception pf p ''unlink'' of
        Some e \<Rightarrow> Inl e
      | None \<Rightarrow>
          (case unlink_node tree (fs_segments p) of
             Inl e \<Rightarrow> Inl (errno_exception e ''unlink'' p)
           | Inr tree' \<Rightarrow> Inr tree'))"

definition fs_access :: "platform \<Rightarrow> node \<Rightarrow> jsstring \<Rightarrow> exn + unit" where
  "fs_access pf tree p =
     (case fs_lookup pf tree p ''access'' of
        Inl e \<Rightarrow> Inl e
      | Inr n \<Rightarrow> Inr ())"

text \<open>\<^verbatim>\<open>fs.readdir(p, { withFileTypes: true })\<close>: the names with \<^verbatim>\<open>isDirectory()\<close>.\<close>

fun isDirectory :: "node \<Rightarrow> bool" where
  "isDirectory (Dir es) = True"
| "isDirectory (File c) = False"

definition fs_readdir :: "platform \<Rightarrow> node \<Rightarrow> jsstring \<Rightarrow> exn + (jsstring \<times> bool) list" where
  "fs_readdir pf tree p =
     (case fs_lookup pf tree p ''scandir'' of
        Inl e \<Rightarrow> Inl e
      | Inr (File c) \<Rightarrow> Inl (errno_exception ENOTDIR ''scandir'' p)
      | Inr (Dir es) \<Rightarrow> Inr (map (\<lambda>(name, n). (name, isDirectory n)) (AList.clearjunk es)))"

fun error_code :: "exn \<Rightarrow> errno option" where
  "error_code (ErrnoException c m) = Some c"
| "error_code e = None"

section \<open>The file operations tool\<close>

datatype file_data = Text jsstring | Entries "jsstring list"

record FileOpsOutput =
  success :: bool
  operation :: jsstring
  path :: jsstring
  data :: "file_data option"
  message :: "jsstring option"

record FileOpsTool =
  allowedDirectories :: "jsstring list"

text \<open>The constructor: \<^verbatim>\<open>allowedDirectories || ['/tmp', process.cwd()]\<close>.\<close>

definition FileOpsTool_new :: "jsstring \<Rightarrow> jsstring list option \<Rightarrow> FileOpsTool" where
  "FileOpsTool_new cwd allowed =
     \<lparr> allowedDirectories = (case allowed of Some dirs \<Rightarrow> dirs | None \<Rightarrow> [js ''/tmp'', cwd]) \<rparr>"

text \<open>\<^verbatim>\<open>allowedDirectories.some(dir => resolvedPath.startsWith(path.resolve(dir)))\<close>.\<close>

definition FileOpsTool_validatePath :: "FileOpsTool \<Rightarrow> jsstring \<Rightarrow> jsstring \<Rightarrow> exn + jsstring" where
  "FileOpsTool_validatePath this cwd filePath =
     (let resolvedPath = resolve cwd filePath;
          isAllowed = list_ex (\<lambda>dir. prefix (resolve cwd dir) resolvedPath) (allowedDirectories this)
      in if \<not> isAllowed then
           Inl (Error (js ''Access denied. Path must be within allowed directories: '' @
                       join (js '', '') (allowedDirectories this)))
         else Inr resolvedPath)"

definition fileops_validOperations :: "string list" where
  "fileops_validOperations = [''read'', ''write'', ''list'', ''delete'', ''exists'']"

definition FileOpsTool_validateInput :: "jsval \<Rightarrow> exn + unit" where
  "FileOpsTool_validateInput input =
     (if nullish input then Inl (cannot_read input ''operation'')
      else if \<not> truthy (get_prop input ''operation'') then
        Inl (Error (js ''Operation is required''))
      else if \<not> js_includes fileops_validOperations (get_prop input ''operation'') then
        Inl (Error (js (''Invalid operation. Must be one of: '' @
                        join '', '' fileops_validOperations)))
      else if \<not> truthy (get_prop input ''path'') \<or> typeof (get_prop input ''path'') \<noteq> ''string'' then
        Inl (Error (js ''Path is required and must be a string''))
      else if get_prop input ''operation'' = JStr (js ''write'') \<and>
              get_prop input ''content'' = JUndefined then
        Inl (Error (js ''Content is required for write operation''))
      else Inr ())"

definition FileOpsTool_readFile :: "platform \<Rightarrow> node \<Rightarrow> jsstring \<Rightarrow> exn + jsstring" where
  "FileOpsTool_readFile pf tree filePath =
     (case fs_readFile pf tree filePath of
        Inr c \<Rightarrow> Inr c
      | Inl error \<Rightarrow>
          (if error_code error = Some ENOENT then Inl (Error (js ''File not found: '' @ filePath))
           else Inl (Error (js ''Failed to read file: '' @ error_message error))))"

text \<open>The directory is made first; what it created stays when the write then fails.\<close>

definition FileOpsTool_writeFile ::
  "platform \<Rightarrow> node \<Rightarrow> jsstring \<Rightarrow> jsval \<Rightarrow> (exn + unit) \<times> node" where
  "FileOpsTool_writeFile pf tree filePath content =
     (case fs_mkdir_recursive pf tree (dirname filePath) of
        Inl error \<Rightarrow> (Inl (Error (js ''Failed to write file: '' @ error_message error)), tree)
      | Inr tree1 \<Rightarrow>
          (case fs_writeFile pf tree1 filePath content of
             (Inl error, tree2) \<Rightarrow>
               (Inl (Error (js ''Failed to write file: '' @ error_message error)), tree2)
           | (Inr u, tree2) \<Rightarrow> (Inr (), tree2)))"

definition FileOpsTool_listDirectory ::
  "platform \<Rightarrow> node \<Rightarrow> jsstring \<Rightarrow> exn + jsstring list" where
  "FileOpsTool_listDirectory pf tree dirPath =
     (case fs_readdir pf tree dirPath of
        Inr entries \<Rightarrow>
          Inr (map (\<lambda>(name, isDir). (if isDir then js ''[DIR] '' else js ''[FILE] '') @ name)
                 entries)
      | Inl error \<Rightarrow>
          (if error_code error = Some ENOENT then
             Inl (Error (js ''Directory not found: '' @ dirPath))
           else Inl (Error (js ''Failed to list directory: '' @ error_message error))))"

definition FileOpsTool_deleteFile ::
  "platform \<Rightarrow> node \<Rightarrow> jsstring \<Rightarrow> (exn + unit) \<times> node" where
  "FileOpsTool_deleteFile pf tree filePath =
     (case fs_unlink pf tree filePath of
        Inr tree' \<Rightarrow> (Inr (), tree')
      | Inl error \<Rightarrow>
          (if error_code error = Some ENOENT then
             (Inl (Error (js ''File not found: '' @ filePath)), tree)
           else (Inl (Error (js ''Failed to delete file: '' @ error_message error)), tree)))"

definition FileOpsTool_fileExists :: "platform \<Rightarrow> node \<Rightarrow> jsstring \<Rightarrow> bool" where
  "FileOpsTool_fileExists pf tree filePath =
     (case fs_access pf tree filePath of Inr u \<Rightarrow> True | Inl error \<Rightarrow> False)"

text \<open>Decimal digits of a length, for \<^verbatim>\<open>`Found ${files.length} entries`\<close>.\<close>

fun decimal :: "nat \<Rightarrow> string" where
  "decimal n =
     (if n < 10 then [char_of (48 + n)] else decimal (n div 10) @ [char_of (48 + n mod 10)])"

text \<open>
  The \<^verbatim>\<open>switch\<close> inside the \<^verbatim>\<open>try\<close> of \<open>performOperation\<close>: the result record
  as the operation leaves it, or the exception the \<^verbatim>\<open>catch\<close> receives.
\<close>

definition perform_switch ::
  "platform \<Rightarrow> node \<Rightarrow> jsval \<Rightarrow> jsstring \<Rightarrow> FileOpsOutput \<Rightarrow> (exn + FileOpsOutput) \<times> node" where
  "perform_switch pf tree input validatedPath res =
     (if get_prop input ''operation'' = JStr (js ''read'') then
        (case FileOpsTool_readFile pf tree validatedPath of
           Inl e \<Rightarrow> (Inl e, tree)
         | Inr content \<Rightarrow>
             (Inr (res\<lparr> success := True, data := Some (Text content),
                        message := Some (js ''File read successfully'') \<rparr>), tree))
      else if get_prop input ''operation'' = JStr (js ''write'') then
        (case FileOpsTool_writeFile pf tree validatedPath (get_prop input ''content'') of
           (Inl e, tree') \<Rightarrow> (Inl e, tree')
         | (Inr u, tree') \<Rightarrow>
             (Inr (res\<lparr> success := True, message := Some (js ''File written successfully'') \<rparr>),
              tree'))
      else if get_prop input ''operation'' = JStr (js ''list'') then
        (case FileOpsTool_listDirectory pf tree validatedPath of
           Inl e \<Rightarrow> (Inl e, tree)
         | Inr files \<Rightarrow>
             (Inr (res\<lparr> success := True, data := Some (Entries files),
                        message := Some (js (''Found '' @ decimal (length files) @ '' entries'')) \<rparr>),
              tree))
      else if get_prop input ''operation'' = JStr (js ''delete'') then
        (case FileOpsTool_deleteFile pf tree validatedPath of
           (Inl e, tree') \<Rightarrow> (Inl e, tree')
         | (Inr u, tree') \<Rightarrow>
             (Inr (res\<lparr> success := True, message := Some (js ''File deleted successfully'') \<rparr>),
              tree'))
      else if get_prop input ''operation'' = JStr (js ''exists'') then
        (let exists = FileOpsTool_fileExists pf tree validatedPath;
             found = (if exists then js ''File exists'' else js ''File does not exist'')
         in (Inr (res\<lparr> success := True, data := Some (Text found), message := Some found \<rparr>), tree))
      else (Inr res, tree))"

definition FileOpsTool_performOperation ::
  "FileOpsTool \<Rightarrow> jsstring \<Rightarrow> platform \<Rightarrow> node \<Rightarrow> jsval \<Rightarrow> (exn + FileOpsOutput) \<times> node" where
  "FileOpsTool_performOperation this cwd pf tree input =
     (case FileOpsTool_validateInput input of
        Inl e \<Rightarrow> (Inl e, tree)
      | Inr u \<Rightarrow>
          (case FileOpsTool_validatePath this cwd (the_string (get_prop input ''path'')) of
             Inl e \<Rightarrow> (Inl e, tree)
           | Inr validatedPath \<Rightarrow>
               (let res = \<lparr> success = False,
                             operation = the_string (get_prop input ''operation''),
                             path = validatedPath,
                             data = None,
                             message = None \<rparr>
                in case perform_switch pf tree input validatedPath res of
                     (Inr res', tree') \<Rightarrow> (Inr res', tree')
                   | (Inl error, tree') \<Rightarrow>
                       (Inr (res\<lparr> success := False, message := Some (error_message error) \<rparr>),
                        tree'))))"

section \<open>Tool definitions\<close>

record PropertySchema =
  prop_type :: string
  prop_enum :: "string list option"
  prop_description :: string
  prop_default :: "string option"

record InputSchema =
  schema_type :: string
  properties :: "(string \<times> PropertySchema) list"
  required :: "string list"

record ToolDefinition =
  name :: string
  description :: string
  inputSchema :: InputSchema

definition CalculatorTool_getToolDefinition :: ToolDefinition where
  "CalculatorTool_getToolDefinition =
     \<lparr> name = ''calculator'',
       description = ''Performs mathematical operations including add, subtract, multiply, divide, power, and square root'',
       inputSchema =
         \<lparr> schema_type = ''object'',
           properties =
             [(''operation'',
               \<lparr> prop_type = ''string'',
                 prop_enum = Some [''add'', ''subtract'', ''multiply'', ''divide'', ''power'', ''sqrt''],
                 prop_description = ''The mathematical operation to perform'',
                 prop_default = None \<rparr>),
              (''a'',
               \<lparr> prop_type = ''number'', prop_enum = None,
                 prop_description = ''The first operand'', prop_default = None \<rparr>),
              (''b'',
               \<lparr> prop_type = ''number'', prop_enum = None,
                 prop_description = ''The second operand (not required for sqrt)'',
                 prop_default = None \<rparr>)],
           required = [''operation'', ''a''] \<rparr> \<rparr>"

definition WeatherTool_getToolDefinition :: ToolDefinition where
  "WeatherTool_getToolDefinition =
     \<lparr> name = ''weather'',
       description = ''Retrieves current weather information and forecast for a specified location'',
       inputSchema =
         \<lparr> schema_type = ''object'',
           properties =
             [(''location'',
               \<lparr> prop_type = ''string'', prop_enum = None,
                 prop_description =
                   ''The location to get weather for (e.g., '' @ [CHR 0x22] @ ''San Francisco'' @
                   [CHR 0x22] @ '', '' @ [CHR 0x22] @ ''New York'' @ [CHR 0x22] @ '', '' @
                   [CHR 0x22] @ ''London'' @ [CHR 0x22] @ '')'',
                 prop_default = None \<rparr>),
              (''units'',
               \<lparr> prop_type = ''string'', prop_enum = Some [''celsius'', ''fahrenheit''],
                 prop_description = ''Temperature units (default: celsius)'',
                 prop_default = Some ''celsius'' \<rparr>)],
           required = [''location''] \<rparr> \<rparr>"

definition FileOpsTool_getToolDefinition :: ToolDefinition where
  "FileOpsTool_getToolDefinition =
     \<lparr> name = ''file_operations'',
       description = ''Performs safe file system operations including read, write, list, delete, and exists checks'',
       inputSchema =
         \<lparr> schema_type = ''object'',
           properties =
             [(''operation'',
               \<lparr> prop_type = ''string'',
                 prop_enum = Some [''read'', ''write'', ''list'', ''delete'', ''exists''],
                 prop_description = ''The file operation to perform'', prop_default = None \<rparr>),
              (''path'',
               \<lparr> prop_type = ''string'', prop_enum = None,
                 prop_description = ''The file or directory path'', prop_default = None \<rparr>),
              (''content'',
               \<lparr> prop_type = ''string'', prop_enum = None,
                 prop_description = ''Content to write (required for write operation)'',
                 prop_default = None \<rparr>)],
           required = [''operation'', ''path''] \<rparr> \<rparr>"

section \<open>The server\<close>

text \<open>
  What a request can read and change outside the server object: the file system, the
  working directory, the random numbers still to be drawn and the clock; and with them
  the parameters of the platform.
\<close>

record world =
  fs :: node
  cwd :: jsstring
  random :: "real stream"
  clock :: jsstring
  platform :: platform

text \<open>
  The server object holds the three tools; only the file operations tool has a field. The
  text of a success, \<^verbatim>\<open>JSON.stringify(result, null, 2)\<close>, is represented by the result
  it serialises.
\<close>

record MCPServer =
  fileOpsTool :: FileOpsTool

definition MCPServer_new :: "world \<Rightarrow> MCPServer" where
  "MCPServer_new w = \<lparr> fileOpsTool = FileOpsTool_new (cwd w) None \<rparr>"

datatype payload =
    CalculatorResult CalculatorOutput
  | WeatherResult WeatherOutput
  | FileOpsResult FileOpsOutput

definition handleCalculator :: "jsval \<Rightarrow> exn + payload" where
  "handleCalculator args =
     (case CalculatorTool_calculate args of
        Inr res \<Rightarrow> Inr (CalculatorResult res)
      | Inl error \<Rightarrow>
          Inl (McpError InvalidParams (js ''Calculator error: '' @ error_message error)))"

definition handleWeather :: "world \<Rightarrow> jsval \<Rightarrow> (exn + payload) \<times> world" where
  "handleWeather w args =
     (case WeatherTool_getWeather (random w) (clock w) args of
        (Inr res, r') \<Rightarrow> (Inr (WeatherResult res), w\<lparr> random := r' \<rparr>)
      | (Inl error, r') \<Rightarrow>
          (Inl (McpError InvalidParams (js ''Weather error: '' @ error_message error)),
           w\<lparr> random := r' \<rparr>))"

definition handleFileOps :: "MCPServer \<Rightarrow> world \<Rightarrow> jsval \<Rightarrow> (exn + payload) \<times> world" where
  "handleFileOps this w args =
     (case FileOpsTool_performOperation (fileOpsTool this) (cwd w) (platform w) (fs w) args of
        (Inr res, tree') \<Rightarrow> (Inr (FileOpsResult res), w\<lparr> fs := tree' \<rparr>)
      | (Inl error, tree') \<Rightarrow>
          (Inl (McpError InvalidParams (js ''File operations error: '' @ error_message error)),
           w\<lparr> fs := tree' \<rparr>))"

text \<open>The \<^verbatim>\<open>switch\<close> on the tool name, inside the \<^verbatim>\<open>try\<close> of the call handler.\<close>

definition dispatch ::
  "MCPServer \<Rightarrow> world \<Rightarrow> jsstring \<Rightarrow> jsval \<Rightarrow> (exn + payload) \<times> world" where
  "dispatch this w tool args =
     (if tool = js ''calculator'' then (handleCalculator args, w)
      else if tool = js ''weather'' then handleWeather w args
      else if tool = js ''file_operations'' then handleFileOps this w args
      else (Inl (McpError MethodNotFound (js ''Unknown tool: '' @ tool)), w))"

text \<open>
  The call handler with its \<^verbatim>\<open>catch\<close>: an \<open>McpError\<close> is thrown on, anything else
  is converted. What the handler throws is the error response of the call.
\<close>

definition callTool ::
  "MCPServer \<Rightarrow> world \<Rightarrow> jsstring \<Rightarrow> jsval \<Rightarrow> (exn + payload) \<times> world" where
  "callTool this w tool args =
     (case dispatch this w tool args of
        (Inr res, w') \<Rightarrow> (Inr res, w')
      | (Inl error, w') \<Rightarrow>
          (if instanceof_McpError error then (Inl error, w')
           else (Inl (McpError InternalError (js ''Tool execution failed: '' @ error_message error)),
                 w')))"

definition listTools :: "MCPServer \<Rightarrow> world \<Rightarrow> ToolDefinition list \<times> world" where
  "listTools this w =
     ([CalculatorTool_getToolDefinition, WeatherTool_getToolDefinition,
       FileOpsTool_getToolDefinition], w)"

section \<open>The order of validation\<close>














section \<open>Validation and containment as the specification words them\<close>









text \<open>
  A path lies under a directory when it is the directory or below it: the directory's
  segments begin the path's.
\<close>

definition located_under :: "jsstring \<Rightarrow> jsstring \<Rightarrow> bool" where
  "located_under dir p = prefix (segments dir) (segments p)"

section \<open>Paths that can be written and deleted\<close>




section \<open>A concrete world\<close>

text \<open>
  The platform of the examples. The writes made in the examples are writes of strings; to
  other data this platform answers with a TypeError, whose message is cut here before the
  description of the value received. Its message for a path with a NUL ends with the path
  between single quotes, every NUL printed as \<^verbatim>\<open>\x00\<close>, which is what the
  platform's inspector prints for the paths of the examples.
\<close>

definition example_platform :: platform where
  "example_platform =
     \<lparr> writeFile_other =
         (\<lambda>tree p content.
            (Inl (TypeError
                    (js (''The '' @ [CHR 0x22] @ ''data'' @ [CHR 0x22] @
                         '' argument must be of type string or an instance of Buffer, TypedArray, or DataView.''))),
             tree)),
       null_bytes_message =
         (\<lambda>p. js (''The argument '' @ [CHR 0x27] @ ''path'' @ [CHR 0x27] @
                  '' must be a string, Uint8Array, or URL without null bytes. Received '' @
                  [CHR 0x27]) @
              concat (map (\<lambda>c. if c = 0 then js ([CHR 0x5C] @ ''x00'') else [c]) p) @
              js [CHR 0x27]) \<rparr>"

text \<open>
  A small file system for evaluating the server on concrete requests: \<^verbatim>\<open>/tmp\<close> holds
  one file, the working directory is empty, and a file lies beside \<^verbatim>\<open>/tmp\<close>.
\<close>

definition example_world :: world where
  "example_world =
     \<lparr> fs = Dir [(js ''tmp'', Dir [(js ''mcp-test.txt'', File (js ''Hello from MCP Server!''))]),
                 (js ''tmpfile.txt'', File (js ''outside'')),
                 (js ''home'', Dir [(js ''user'', Dir [(js ''project'', Dir [])])])],
       cwd = js ''/home/user/project'',
       random = sconst (1 / 2),
       clock = js ''2026-01-01T00:00:00.000Z'',
       platform = example_platform \<rparr>"

definition example_server :: MCPServer where
  "example_server = MCPServer_new example_world"

section \<open>Properties of strings\<close>

text \<open>A literal stands for its code units: different literals are different strings.\<close>

lemma unat_of_char: "unat (of_char c :: 16 word) = of_char c"
proof -
  have "(of_char c :: nat) < 256"
    by (cases c) simp
  moreover have "(256 :: nat) \<le> 2 ^ 16"
    by simp
  ultimately have "(of_char c :: nat) < 2 ^ 16"
    by (rule order_less_le_trans)
  then have "unat (of_nat (of_char c) :: 16 word) = of_char c"
    by (simp add: unat_of_nat take_bit_nat_eq_self)
  then show ?thesis
    by (simp add: of_nat_of_char)
qed

lemma of_char_word_eq_iff: "(of_char c :: 16 word) = of_char d \<longleftrightarrow> c = d"
proof
  assume "(of_char c :: 16 word) = of_char d"
  then have "unat (of_char c :: 16 word) = unat (of_char d :: 16 word)"
    by simp
  then show "c = d"
    by (simp add: unat_of_char)
qed simp

lemma js_eq_iff [simp]: "js a = js b \<longleftrightarrow> a = b"
  by (simp add: js_def inj_map_eq_map inj_def of_char_word_eq_iff)

lemma js_eq_Nil [simp]: "js a = [] \<longleftrightarrow> a = []"
  by (simp add: js_def)

lemma Nil_eq_js [simp]: "[] = js a \<longleftrightarrow> a = []"
  by (simp add: js_def)

lemma js_append: "js (a @ b) = js a @ js b"
  by (simp add: js_def)

section \<open>Properties of the dispatcher\<close>

text \<open>The call handler, tool by tool.\<close>

lemma callTool_calculator:
  "callTool this w (js ''calculator'') args =
     (case CalculatorTool_calculate args of
        Inr res \<Rightarrow> (Inr (CalculatorResult res), w)
      | Inl e \<Rightarrow> (Inl (McpError InvalidParams (js ''Calculator error: '' @ error_message e)), w))"
  by (simp add: callTool_def dispatch_def handleCalculator_def split: sum.splits)

lemma callTool_weather:
  "callTool this w (js ''weather'') args =
     (case WeatherTool_getWeather (random w) (clock w) args of
        (Inr res, r') \<Rightarrow> (Inr (WeatherResult res), w\<lparr> random := r' \<rparr>)
      | (Inl e, r') \<Rightarrow>
          (Inl (McpError InvalidParams (js ''Weather error: '' @ error_message e)),
           w\<lparr> random := r' \<rparr>))"
  by (simp add: callTool_def dispatch_def handleWeather_def split: prod.splits sum.splits)

lemma callTool_file_operations:
  "callTool this w (js ''file_operations'') args =
     (case FileOpsTool_performOperation (fileOpsTool this) (cwd w) (platform w) (fs w) args of
        (Inr res, t') \<Rightarrow> (Inr (FileOpsResult res), w\<lparr> fs := t' \<rparr>)
      | (Inl e, t') \<Rightarrow>
          (Inl (McpError InvalidParams (js ''File operations error: '' @ error_message e)),
           w\<lparr> fs := t' \<rparr>))"
  by (simp add: callTool_def dispatch_def handleFileOps_def split: prod.splits sum.splits)

lemma callTool_unknown:
  "tool \<noteq> js ''calculator'' \<Longrightarrow> tool \<noteq> js ''weather'' \<Longrightarrow> tool \<noteq> js ''file_operations'' \<Longrightarrow>
   callTool this w tool args = (Inl (McpError MethodNotFound (js ''Unknown tool: '' @ tool)), w)"
  by (simp add: callTool_def dispatch_def)

text \<open>The definitions that evaluate a request on a concrete world.\<close>

lemmas path_eval = js_def resolve_def segments_def normalize_segments_def normalize_step_def
  absolute_of_def dirname_def fs_segments_def path_exception_def name_too_long_def utf8_width_def
  is_high_surrogate_def is_low_surrogate_def

lemmas fileops_eval = callTool_def dispatch_def handleFileOps_def FileOpsTool_performOperation_def
  FileOpsTool_validateInput_def FileOpsTool_validatePath_def fileops_validOperations_def
  perform_switch_def FileOpsTool_readFile_def FileOpsTool_writeFile_def FileOpsTool_deleteFile_def
  FileOpsTool_fileExists_def FileOpsTool_listDirectory_def fs_readFile_def fs_writeFile_def
  fs_unlink_def fs_access_def fs_readdir_def fs_mkdir_recursive_def fs_lookup_def
  errno_exception_def
  path_eval example_world_def example_platform_def example_server_def MCPServer_new_def FileOpsTool_new_def

text \<open>
  Inside \<open>performOperation\<close> the \<^verbatim>\<open>catch\<close> around the \<^verbatim>\<open>switch\<close> takes every
  exception: once both validations have passed, the operation returns a result.
\<close>

lemma perform_switch_caught:
  "\<exists>res t'. (case perform_switch pf t i rp r0 of
        (Inr res', t') \<Rightarrow> (Inr res', t')
      | (Inl error, t') \<Rightarrow> (Inr (r1 error), t')) = (Inr res, t')"
  by (cases "perform_switch pf t i rp r0") (auto split: sum.splits)

lemma performOperation_after_validation:
  assumes "FileOpsTool_validateInput input = Inr ()"
    and "FileOpsTool_validatePath this wd (the_string (get_prop input ''path'')) = Inr rp"
  shows "\<exists>res t'. FileOpsTool_performOperation this wd pf t input = (Inr res, t')"
  using assms perform_switch_caught
  by (simp add: FileOpsTool_performOperation_def Let_def)

text \<open>
  A call of one of the three tools ends in a payload or in \<open>InvalidParams\<close>; so every
  call ends in a payload or in one of two kinds of error.
\<close>

lemma callTool_known_kinds:
  assumes "tool = js ''calculator'' \<or> tool = js ''weather'' \<or> tool = js ''file_operations''"
  shows "(\<exists>res. fst (callTool this w tool args) = Inr res) \<or>
         (\<exists>m. fst (callTool this w tool args) = Inl (McpError InvalidParams m))"
proof -
  consider "tool = js ''calculator''" | "tool = js ''weather''" | "tool = js ''file_operations''"
    using assms by blast
  then show ?thesis
  proof cases
    case 1
    then show ?thesis
      by (cases "CalculatorTool_calculate args") (simp_all add: callTool_calculator)
  next
    case 2
    obtain r r' where "WeatherTool_getWeather (random w) (clock w) args = (r, r')"
      by (cases "WeatherTool_getWeather (random w) (clock w) args")
    with 2 show ?thesis
      by (cases r) (simp_all add: callTool_weather)
  next
    case 3
    obtain r t' where
      "FileOpsTool_performOperation (fileOpsTool this) (cwd w) (platform w) (fs w) args = (r, t')"
      by (cases "FileOpsTool_performOperation (fileOpsTool this) (cwd w) (platform w) (fs w) args")
    with 3 show ?thesis
      by (cases r) (simp_all add: callTool_file_operations)
  qed
qed

lemma callTool_kinds:
  "(\<exists>res. fst (callTool this w tool args) = Inr res) \<or>
   (\<exists>m. fst (callTool this w tool args) = Inl (McpError MethodNotFound m)) \<or>
   (\<exists>m. fst (callTool this w tool args) = Inl (McpError InvalidParams m))"
proof (cases "tool = js ''calculator'' \<or> tool = js ''weather'' \<or> tool = js ''file_operations''")
  case True
  then show ?thesis
    using callTool_known_kinds [of tool this w args] by blast
next
  case False
  then show ?thesis
    by (simp add: callTool_unknown)
qed

text \<open>The tools the call handler knows are the tools the list names.\<close>

lemma callTool_known_iff:
  "(tool = js ''calculator'' \<or> tool = js ''weather'' \<or> tool = js ''file_operations'') =
   (\<nexists>m. fst (callTool this w tool args) = Inl (McpError MethodNotFound m))"
proof (cases "tool = js ''calculator'' \<or> tool = js ''weather'' \<or> tool = js ''file_operations''")
  case True
  then show ?thesis
    using callTool_known_kinds [of tool this w args] by auto
next
  case False
  then show ?thesis
    by (simp add: callTool_unknown)
qed

text \<open>
  C1. A call that names a tool other than \<^verbatim>\<open>calculator\<close>, \<^verbatim>\<open>weather\<close> and
  \<^verbatim>\<open>file_operations\<close> is answered, whatever its arguments, by the error
  \<open>MethodNotFound\<close>. The failure is that of the call alone: the world is left as it
  was, and any call after it is answered as if the failed call had not been made.
\<close>

theorem unknown_tool_method_not_found:
  "tool \<notin> {js ''calculator'', js ''weather'', js ''file_operations''} \<Longrightarrow>
   callTool this w tool args = (Inl (McpError MethodNotFound (js ''Unknown tool: '' @ tool)), w) \<and>
   callTool this (snd (callTool this w tool args)) tool' args' = callTool this w tool' args'"
  by (simp add: callTool_def dispatch_def)

theorem unknown_tool_method_not_found_witness:
  "js ''nonexistent'' \<notin> {js ''calculator'', js ''weather'', js ''file_operations''} \<and>
   callTool example_server example_world (js ''nonexistent'') (JObj []) =
     (Inl (McpError MethodNotFound (js ''Unknown tool: nonexistent'')), example_world) \<and>
   callTool example_server
     (snd (callTool example_server example_world (js ''nonexistent'') (JObj [])))
     (js ''calculator'')
     (JObj [(''operation'', JStr (js ''add'')), (''a'', JNum (Fin 15)), (''b'', JNum (Fin 7))]) =
   callTool example_server example_world (js ''calculator'')
     (JObj [(''operation'', JStr (js ''add'')), (''a'', JNum (Fin 15)), (''b'', JNum (Fin 7))])"
  using unknown_tool_method_not_found [of "js ''nonexistent''" example_server example_world "JObj []"
      "js ''calculator''"
      "JObj [(''operation'', JStr (js ''add'')), (''a'', JNum (Fin 15)), (''b'', JNum (Fin 7))]"]
  by (simp add: js_def)

text \<open>
  C2, as the code has it. Whatever a tool throws, a rejected input or an exception nobody
  expected alike, its handler catches and turns into the error \<open>InvalidParams\<close>, with the
  tool's prefix before the message. A fault of the file system is thrown by no tool: a file
  operation whose input has passed validation is answered by a payload. No call is answered
  by \<open>InternalError\<close>, the conversion in the call handler is never reached, and every call
  ends in a payload, in \<open>MethodNotFound\<close> or in \<open>InvalidParams\<close>.
\<close>

theorem handler_failures_invalid_params:
  "(CalculatorTool_calculate args = Inl e1 \<longrightarrow>
      callTool this w (js ''calculator'') args =
        (Inl (McpError InvalidParams (js ''Calculator error: '' @ error_message e1)), w)) \<and>
   (WeatherTool_getWeather (random w) (clock w) args = (Inl e2, r') \<longrightarrow>
      callTool this w (js ''weather'') args =
        (Inl (McpError InvalidParams (js ''Weather error: '' @ error_message e2)),
         w\<lparr> random := r' \<rparr>)) \<and>
   (FileOpsTool_performOperation (fileOpsTool this) (cwd w) (platform w) (fs w) args = (Inl e3, t') \<longrightarrow>
      callTool this w (js ''file_operations'') args =
        (Inl (McpError InvalidParams (js ''File operations error: '' @ error_message e3)),
         w\<lparr> fs := t' \<rparr>)) \<and>
   (FileOpsTool_validateInput fargs = Inr () \<and>
    FileOpsTool_validatePath (fileOpsTool this) (cwd w) (the_string (get_prop fargs ''path'')) =
      Inr rp \<longrightarrow>
      (\<exists>res t''. callTool this w (js ''file_operations'') fargs =
         (Inr (FileOpsResult res), w\<lparr> fs := t'' \<rparr>))) \<and>
   fst (callTool this w tool args) \<noteq> Inl (McpError InternalError m) \<and>
   ((\<exists>res. fst (callTool this w tool args) = Inr res) \<or>
    (\<exists>m'. fst (callTool this w tool args) = Inl (McpError MethodNotFound m')) \<or>
    (\<exists>m'. fst (callTool this w tool args) = Inl (McpError InvalidParams m')))"
proof -
  have never: "fst (callTool this w tool args) \<noteq> Inl (McpError InternalError m)"
    using callTool_kinds [of this w tool args] by auto
  have faults: "\<exists>res t''. callTool this w (js ''file_operations'') fargs =
         (Inr (FileOpsResult res), w\<lparr> fs := t'' \<rparr>)"
    if vi: "FileOpsTool_validateInput fargs = Inr ()"
      and vp: "FileOpsTool_validatePath (fileOpsTool this) (cwd w)
             (the_string (get_prop fargs ''path'')) = Inr rp"
  proof -
    obtain res t'' where
      "FileOpsTool_performOperation (fileOpsTool this) (cwd w) (platform w) (fs w) fargs = (Inr res, t'')"
      using performOperation_after_validation [OF vi vp] by blast
    then have "callTool this w (js ''file_operations'') fargs =
        (Inr (FileOpsResult res), w\<lparr> fs := t'' \<rparr>)"
      by (simp add: callTool_file_operations)
    then show ?thesis
      by blast
  qed
  show ?thesis
    using never faults callTool_kinds [of this w tool args]
    by (simp add: callTool_calculator callTool_weather callTool_file_operations)
qed

theorem handler_failures_invalid_params_witness:
  "CalculatorTool_calculate JUndefined = Inl (cannot_read JUndefined ''operation'') \<and>
   callTool example_server example_world (js ''calculator'') JUndefined =
     (Inl (McpError InvalidParams
             (js ''Calculator error: '' @ error_message (cannot_read JUndefined ''operation''))),
      example_world) \<and>
   WeatherTool_getWeather (random example_world) (clock example_world) JUndefined =
     (Inl (cannot_read JUndefined ''location''), random example_world) \<and>
   callTool example_server example_world (js ''weather'') JUndefined =
     (Inl (McpError InvalidParams
             (js ''Weather error: '' @ error_message (cannot_read JUndefined ''location''))),
      example_world) \<and>
   FileOpsTool_performOperation (fileOpsTool example_server) (cwd example_world)
       (platform example_world) (fs example_world) JUndefined =
     (Inl (cannot_read JUndefined ''operation''), fs example_world) \<and>
   callTool example_server example_world (js ''file_operations'') JUndefined =
     (Inl (McpError InvalidParams
             (js ''File operations error: '' @ error_message (cannot_read JUndefined ''operation''))),
      example_world) \<and>
   FileOpsTool_validateInput (JObj [(''operation'', JStr (js ''list'')), (''path'', JStr (js ''/tmpfile.txt''))]) =
     Inr () \<and>
   FileOpsTool_validatePath (fileOpsTool example_server) (cwd example_world) (js ''/tmpfile.txt'') =
     Inr (js ''/tmpfile.txt'') \<and>
   (\<exists>res t''. callTool example_server example_world (js ''file_operations'')
       (JObj [(''operation'', JStr (js ''list'')), (''path'', JStr (js ''/tmpfile.txt''))]) =
     (Inr (FileOpsResult res), example_world\<lparr> fs := t'' \<rparr>))"
proof -
  have c: "CalculatorTool_calculate JUndefined = Inl (cannot_read JUndefined ''operation'')"
    by (simp add: CalculatorTool_calculate_def CalculatorTool_validateInput_def)
  have g: "WeatherTool_getWeather (random example_world) (clock example_world) JUndefined =
      (Inl (cannot_read JUndefined ''location''), random example_world)"
    by (simp add: WeatherTool_getWeather_def WeatherTool_validateInput_def)
  have f: "FileOpsTool_performOperation (fileOpsTool example_server) (cwd example_world)
       (platform example_world) (fs example_world) JUndefined =
     (Inl (cannot_read JUndefined ''operation''), fs example_world)"
    by (simp add: FileOpsTool_performOperation_def FileOpsTool_validateInput_def)
  have vi: "FileOpsTool_validateInput
      (JObj [(''operation'', JStr (js ''list'')), (''path'', JStr (js ''/tmpfile.txt''))]) = Inr ()"
    by (simp add: FileOpsTool_validateInput_def fileops_validOperations_def)
  have vp: "FileOpsTool_validatePath (fileOpsTool example_server) (cwd example_world)
      (js ''/tmpfile.txt'') = Inr (js ''/tmpfile.txt'')"
    by (simp add: FileOpsTool_validatePath_def example_server_def example_world_def
        MCPServer_new_def FileOpsTool_new_def path_eval)
  show ?thesis
    using c g f vi vp
      handler_failures_invalid_params [of JUndefined "cannot_read JUndefined ''operation''"
        example_server example_world "cannot_read JUndefined ''location''"
        "random example_world" "cannot_read JUndefined ''operation''" "fs example_world"
        "JObj [(''operation'', JStr (js ''list'')), (''path'', JStr (js ''/tmpfile.txt''))]"
        "js ''/tmpfile.txt''"]
    by simp
qed

text \<open>
  C2 as stated fails. A call of the calculator without arguments makes \<open>calculate\<close>
  throw a TypeError, which is no rejection of an input, and the call is answered by
  \<open>InvalidParams\<close>, not by \<open>InternalError\<close>. Reading a directory meets a fault of the
  file system, and the call is answered by a payload whose \<open>success\<close> is false.
\<close>

theorem unexpected_exception_counterexample:
  "CalculatorTool_calculate JUndefined =
     Inl (TypeError (js (''Cannot read properties of undefined (reading '' @ [CHR 0x27] @
                         ''operation'' @ [CHR 0x27] @ '')''))) \<and>
   callTool example_server example_world (js ''calculator'') JUndefined =
     (Inl (McpError InvalidParams
             (js (''Calculator error: Cannot read properties of undefined (reading '' @ [CHR 0x27] @
                  ''operation'' @ [CHR 0x27] @ '')''))), example_world) \<and>
   fs_readFile (platform example_world) (fs example_world) (js ''/tmp'') =
     Inl (ErrnoException EISDIR (js ''EISDIR: illegal operation on a directory, read'')) \<and>
   callTool example_server example_world (js ''file_operations'')
     (JObj [(''operation'', JStr (js ''read'')), (''path'', JStr (js ''/tmp''))]) =
   (Inr (FileOpsResult \<lparr> success = False, operation = js ''read'', path = js ''/tmp'',
           data = None,
           message = Some (js ''Failed to read file: EISDIR: illegal operation on a directory, read'') \<rparr>),
    example_world)"
  by (simp add: handleCalculator_def CalculatorTool_calculate_def CalculatorTool_validateInput_def
      fileops_eval Let_def)

text \<open>
  C9. Listing the tools gives the definitions of \<^verbatim>\<open>calculator\<close>, \<^verbatim>\<open>weather\<close> and
  \<^verbatim>\<open>file_operations\<close>, in this order and each once; these are the names a call can
  use without meeting \<open>MethodNotFound\<close>. The list depends neither on the server nor on
  the world, so two listings agree, also with a tool call between them.
\<close>

theorem listTools_registered:
  "listTools this w =
     ([CalculatorTool_getToolDefinition, WeatherTool_getToolDefinition,
       FileOpsTool_getToolDefinition], w) \<and>
   map name (fst (listTools this w)) = [''calculator'', ''weather'', ''file_operations''] \<and>
   distinct (map name (fst (listTools this w))) \<and>
   (tool \<in> set (map (js \<circ> name) (fst (listTools this w)))) =
     (\<nexists>m. fst (callTool this w tool args) = Inl (McpError MethodNotFound m)) \<and>
   fst (listTools this' w') = fst (listTools this w) \<and>
   fst (listTools this (snd (callTool this w tool args))) = fst (listTools this w)"
  using callTool_known_iff [of tool this w args]
  by (simp add: listTools_def CalculatorTool_getToolDefinition_def
      WeatherTool_getToolDefinition_def FileOpsTool_getToolDefinition_def)

section \<open>Properties of the calculator\<close>

lemmas calc_defs = callTool_def dispatch_def handleCalculator_def CalculatorTool_calculate_def
  CalculatorTool_validateInput_def calculate_result_def calculator_validOperations_def js_sub_def

lemma sqrt_144: "sqrt 144 = 12"
  using real_sqrt_abs [of 12] by simp

text \<open>
  C6. The calculator on the five example calls: 15 + 7 is 22, 8 * 9 is 72, the square
  root of 144 is 12, and both the division of 10 by 0 and the square root of -1 are
  answered by the error \<open>InvalidParams\<close>.
\<close>

theorem calculator_examples:
  "callTool this w (js ''calculator'')
     (JObj [(''operation'', JStr (js ''add'')), (''a'', JNum (Fin 15)), (''b'', JNum (Fin 7))]) =
   (Inr (CalculatorResult \<lparr> result = Fin 22, calc_operation = js ''add'', inputs_a = Fin 15,
                             inputs_b = Some (JNum (Fin 7)) \<rparr>), w) \<and>
   callTool this w (js ''calculator'')
     (JObj [(''operation'', JStr (js ''multiply'')), (''a'', JNum (Fin 8)), (''b'', JNum (Fin 9))]) =
   (Inr (CalculatorResult \<lparr> result = Fin 72, calc_operation = js ''multiply'', inputs_a = Fin 8,
                             inputs_b = Some (JNum (Fin 9)) \<rparr>), w) \<and>
   callTool this w (js ''calculator'') (JObj [(''operation'', JStr (js ''sqrt'')), (''a'', JNum (Fin 144))]) =
   (Inr (CalculatorResult \<lparr> result = Fin 12, calc_operation = js ''sqrt'', inputs_a = Fin 144,
                             inputs_b = None \<rparr>), w) \<and>
   callTool this w (js ''calculator'')
     (JObj [(''operation'', JStr (js ''divide'')), (''a'', JNum (Fin 10)), (''b'', JNum (Fin 0))]) =
   (Inl (McpError InvalidParams (js ''Calculator error: Division by zero is not allowed'')), w) \<and>
   callTool this w (js ''calculator'') (JObj [(''operation'', JStr (js ''sqrt'')), (''a'', JNum (Fin (- 1)))]) =
   (Inl (McpError InvalidParams
           (js ''Calculator error: Cannot calculate square root of negative number'')), w)"
  by (simp add: calc_defs sqrt_144 js_def)

section \<open>The order in which violations are reported\<close>




















section \<open>Properties of the weather tool\<close>

lemma forecast_entries_days: "map day (fst (forecast_entries ds t r)) = ds"
proof (induction ds arbitrary: r)
  case Nil
  show ?case by simp
next
  case (Cons d ds)
  obtain es r' where rest: "forecast_entries ds t (stl (stl (stl r))) = (es, r')"
    by (cases "forecast_entries ds t (stl (stl (stl r)))")
  have "map day es = ds"
    using Cons.IH [of "stl (stl (stl r))"] rest by simp
  then show ?case
    using rest by (simp add: Let_def)
qed

lemma generateWeatherData_fields:
  "location (fst (generateWeatherData r now loc u)) = loc \<and>
   units (fst (generateWeatherData r now loc u)) =
     (if u = JStr (js ''celsius'') then js ''Celsius'' else js ''Fahrenheit'') \<and>
   map day (forecast (fst (generateWeatherData r now loc u))) = days"
  using forecast_entries_days [of days]
  by (simp add: generateWeatherData_def Let_def split: prod.splits) (metis fst_conv)

text \<open>
  C10. When the location is a string that is not blank and the units are absent,
  \<^verbatim>\<open>celsius\<close> or \<^verbatim>\<open>fahrenheit\<close>, \<open>getWeather\<close> returns, whatever numbers it
  draws, an output with the location of the input, with the units \<^verbatim>\<open>Fahrenheit\<close> when
  the input says \<^verbatim>\<open>fahrenheit\<close> and \<^verbatim>\<open>Celsius\<close> otherwise, and with a forecast of
  seven entries, for Monday to Sunday in this order.
\<close>

theorem getWeather_valid_input:
  assumes "get_prop input ''location'' = JStr loc"
    and "trim loc \<noteq> []"
    and "get_prop input ''units'' = JUndefined \<or> get_prop input ''units'' = JStr (js ''celsius'') \<or>
         get_prop input ''units'' = JStr (js ''fahrenheit'')"
  shows "\<exists>out r'. WeatherTool_getWeather r now input = (Inr out, r') \<and>
           location out = loc \<and>
           units out = (if get_prop input ''units'' = JStr (js ''fahrenheit'') then js ''Fahrenheit''
                        else js ''Celsius'') \<and>
           length (forecast out) = 7 \<and>
           map day (forecast out) =
             map js [''Monday'', ''Tuesday'', ''Wednesday'', ''Thursday'', ''Friday'', ''Saturday'',
                     ''Sunday'']"
proof -
  have obj: "\<not> nullish input"
    using assms(1) by (cases input) simp_all
  have loc: "loc \<noteq> []"
    using assms(2) by (auto simp: trim_def)
  have valid: "WeatherTool_validateInput input = Inr ()"
    using assms obj loc by (auto simp: WeatherTool_validateInput_def)
  define u where "u = (if truthy (get_prop input ''units'') then get_prop input ''units''
                        else JStr (js ''celsius''))"
  have u: "(u = JStr (js ''celsius'')) = (get_prop input ''units'' \<noteq> JStr (js ''fahrenheit''))"
    using assms(3) by (auto simp: u_def)
  obtain out r' where g: "generateWeatherData r now loc u = (out, r')"
    by (cases "generateWeatherData r now loc u")
  have res: "WeatherTool_getWeather r now input = (Inr out, r')"
    using valid g assms(1) by (simp add: WeatherTool_getWeather_def u_def [symmetric])
  have f: "location out = loc"
    "units out = (if u = JStr (js ''celsius'') then js ''Celsius'' else js ''Fahrenheit'')"
    "map day (forecast out) = days"
    using generateWeatherData_fields [of r now loc u] g by simp_all
  have len: "length (forecast out) = 7"
  proof -
    have "length (map day (forecast out)) = length days"
      using f(3) by simp
    then show ?thesis by (simp add: days_def)
  qed
  show ?thesis
    using res f len u by (auto simp: days_def)
qed

theorem getWeather_valid_input_witness:
  "\<exists>out r'. WeatherTool_getWeather (sconst (1 / 2)) (js ''2026-01-01T00:00:00.000Z'')
       (JObj [(''location'', JStr (js ''San Francisco'')), (''units'', JStr (js ''fahrenheit''))]) =
         (Inr out, r') \<and>
     location out = js ''San Francisco'' \<and> units out = js ''Fahrenheit'' \<and>
     length (forecast out) = 7 \<and>
     map day (forecast out) =
       map js [''Monday'', ''Tuesday'', ''Wednesday'', ''Thursday'', ''Friday'', ''Saturday'',
               ''Sunday'']"
  using getWeather_valid_input
    [of "JObj [(''location'', JStr (js ''San Francisco'')), (''units'', JStr (js ''fahrenheit''))]"
      "js ''San Francisco''" "sconst (1 / 2)" "js ''2026-01-01T00:00:00.000Z''"]
  by (simp add: trim_def is_space_def js_def)

section \<open>Properties of paths\<close>


lemma split_path_not_Nil: "split_path p \<noteq> []"
  by (induction p) (auto split: list.splits)













section \<open>Properties of the encoding\<close>














section \<open>Properties of the file system\<close>

















section \<open>Properties of the file operations tool\<close>


text \<open>\<open>performOperation\<close> once both validations have passed.\<close>

lemma validateInput_ok:
  assumes "get_prop input ''operation'' = JStr op"
    and "js_includes fileops_validOperations (JStr op)"
    and "get_prop input ''path'' = JStr p"
    and "p \<noteq> []"
    and "op \<noteq> js ''write'' \<or> get_prop input ''content'' \<noteq> JUndefined"
  shows "FileOpsTool_validateInput input = Inr ()"
proof -
  have "\<not> nullish input"
    using assms(1) by (cases input) simp_all
  moreover have "op \<noteq> []"
    using assms(2) by (auto simp: fileops_validOperations_def)
  ultimately show ?thesis
    using assms by (auto simp: FileOpsTool_validateInput_def)
qed






text \<open>
  C5. \<open>validatePath\<close> accepts a path exactly when the resolved form of some allowed
  directory is a prefix, as a string, of the resolved path. So it accepts
  \<^verbatim>\<open>/tmpfile.txt\<close>, which begins with \<^verbatim>\<open>/tmp\<close> and lies under no allowed
  directory, and the read of that file goes ahead.
\<close>

theorem validatePath_string_prefix:
  "(\<exists>rp. FileOpsTool_validatePath this wd p = Inr rp) =
     list_ex (\<lambda>dir. prefix (resolve wd dir) (resolve wd p)) (allowedDirectories this) \<and>
   FileOpsTool_validatePath (FileOpsTool_new wd None) wd (js ''/tmpfile.txt'') =
     Inr (js ''/tmpfile.txt'') \<and>
   \<not> list_ex (\<lambda>dir. located_under (resolve (cwd example_world) dir)
                     (resolve (cwd example_world) (js ''/tmpfile.txt'')))
         (allowedDirectories (fileOpsTool example_server)) \<and>
   FileOpsTool_performOperation (fileOpsTool example_server) (cwd example_world)
     (platform example_world) (fs example_world)
     (JObj [(''operation'', JStr (js ''read'')), (''path'', JStr (js ''/tmpfile.txt''))]) =
   (Inr \<lparr> success = True, operation = js ''read'', path = js ''/tmpfile.txt'',
           data = Some (Text (js ''outside'')), message = Some (js ''File read successfully'') \<rparr>,
    fs example_world)"
proof -
  have a: "(\<exists>rp. FileOpsTool_validatePath this wd p = Inr rp) =
     list_ex (\<lambda>dir. prefix (resolve wd dir) (resolve wd p)) (allowedDirectories this)"
    by (simp add: FileOpsTool_validatePath_def Let_def)
  have b: "FileOpsTool_validatePath (FileOpsTool_new wd None) wd (js ''/tmpfile.txt'') =
      Inr (js ''/tmpfile.txt'')"
    by (simp add: FileOpsTool_validatePath_def FileOpsTool_new_def path_eval)
  have c: "\<not> list_ex (\<lambda>dir. located_under (resolve (cwd example_world) dir)
                     (resolve (cwd example_world) (js ''/tmpfile.txt'')))
         (allowedDirectories (fileOpsTool example_server))"
    by (simp add: located_under_def example_server_def example_world_def MCPServer_new_def
        FileOpsTool_new_def path_eval)
  have d: "FileOpsTool_performOperation (fileOpsTool example_server) (cwd example_world)
     (platform example_world) (fs example_world)
     (JObj [(''operation'', JStr (js ''read'')), (''path'', JStr (js ''/tmpfile.txt''))]) =
   (Inr \<lparr> success = True, operation = js ''read'', path = js ''/tmpfile.txt'',
           data = Some (Text (js ''outside'')), message = Some (js ''File read successfully'') \<rparr>,
    fs example_world)"
    by (simp add: fileops_eval Let_def)
  from a b c d show ?thesis by simp
qed

text \<open>
  C4 at the input where the code fails it. \<^verbatim>\<open>/tmpfile.txt\<close> and
  \<^verbatim>\<open>/tmp-other/notes.txt\<close> lie under neither \<^verbatim>\<open>/tmp\<close> nor the working
  directory; reading the first returns its content, reading the second, which does not
  exist, reports a missing file. Neither call is answered by \<open>InvalidParams\<close>.
\<close>

theorem read_beside_allowed_directory:
  "\<not> list_ex (\<lambda>dir. located_under (resolve (cwd example_world) dir)
                     (resolve (cwd example_world) (js ''/tmpfile.txt'')))
         (allowedDirectories (fileOpsTool example_server)) \<and>
   callTool example_server example_world (js ''file_operations'')
     (JObj [(''operation'', JStr (js ''read'')), (''path'', JStr (js ''/tmpfile.txt''))]) =
   (Inr (FileOpsResult \<lparr> success = True, operation = js ''read'', path = js ''/tmpfile.txt'',
           data = Some (Text (js ''outside'')),
           message = Some (js ''File read successfully'') \<rparr>),
    example_world) \<and>
   \<not> list_ex (\<lambda>dir. located_under (resolve (cwd example_world) dir)
                     (resolve (cwd example_world) (js ''/tmp-other/notes.txt'')))
         (allowedDirectories (fileOpsTool example_server)) \<and>
   callTool example_server example_world (js ''file_operations'')
     (JObj [(''operation'', JStr (js ''read'')), (''path'', JStr (js ''/tmp-other/notes.txt''))]) =
   (Inr (FileOpsResult \<lparr> success = False, operation = js ''read'',
           path = js ''/tmp-other/notes.txt'', data = None,
           message = Some (js ''File not found: /tmp-other/notes.txt'') \<rparr>),
    example_world)"
  by (simp add: fileops_eval Let_def located_under_def)

text \<open>
  What the code does ensure: a read is denied when no allowed directory is a prefix, as a
  string, of the resolved path, whatever the file system holds.
\<close>

lemma read_without_prefix_denied:
  assumes "get_prop args ''operation'' = JStr (js ''read'')"
    and "get_prop args ''path'' = JStr p"
    and "p \<noteq> []"
    and "\<not> list_ex (\<lambda>dir. prefix (resolve (cwd w) dir) (resolve (cwd w) p))
             (allowedDirectories (fileOpsTool this))"
  shows "callTool this w (js ''file_operations'') args =
     (Inl (McpError InvalidParams
             (js ''File operations error: Access denied. Path must be within allowed directories: '' @
              join (js '', '') (allowedDirectories (fileOpsTool this)))), w)"
proof -
  have vi: "FileOpsTool_validateInput args = Inr ()"
    using assms(1-3)
    by (intro validateInput_ok [of _ "js ''read''" p]) (simp_all add: fileops_validOperations_def)
  have "callTool this w (js ''file_operations'') args =
     (Inl (McpError InvalidParams
             (js ''File operations error: '' @
              js ''Access denied. Path must be within allowed directories: '' @
              join (js '', '') (allowedDirectories (fileOpsTool this)))), w)"
    using assms vi
    by (simp add: callTool_file_operations FileOpsTool_performOperation_def
        FileOpsTool_validatePath_def Let_def)
  then show ?thesis
    by (simp add: js_def)
qed





















end
